theory Spec2Isabelle
  imports Complex_Main
begin

section \<open>Water-loss dashboard: the anomaly scorer, the live-reading injector, the explanation\<close>

text \<open>
  The three source files are short compositions of calls on a pandas table:
  \<^item> \<^verbatim>\<open>model/anomaly_detector.py\<close>: \<^verbatim>\<open>detect_anomalies(df)\<close> (the scorer),
  \<^item> \<^verbatim>\<open>utils/live_data.py\<close>: \<^verbatim>\<open>generate_live_data(df)\<close> (the injector),
  \<^item> \<^verbatim>\<open>utils/explanation.py\<close>: \<^verbatim>\<open>generate_explanation(row)\<close>.

  Integers of an \<^verbatim>\<open>int64\<close> column are 64-bit integers with their wrap-around. Numbers of
  a \<^verbatim>\<open>float64\<close> column are reals: the scorer's arithmetic on them is exact here, and where
  the injector adds to such a cell the rounding of the sum to a machine number is a
  parameter.
\<close>

subsection \<open>Tables\<close>

text \<open>
  A cell holds an integer (a cell of an \<^verbatim>\<open>int64\<close> column), a floating-point number (a
  cell of a \<^verbatim>\<open>float64\<close> column), a text, or the missing-value marker that pandas writes
  into the cells of a column created by assigning to one position only.
\<close>

datatype cell = I64 int | Num real | Str string | NaN

type_synonym row = "string \<Rightarrow> cell option"

text \<open>
  A table has its column names and its rows. Rows are addressed by position: the table
  carries the default index \<open>0, 1, ..., n - 1\<close> that \<^verbatim>\<open>read_csv\<close> gives it in \<^verbatim>\<open>app.py\<close>,
  so a row label is a position.
\<close>

record dataframe =
  columns :: "string list"
  rows :: "row list"

text \<open>The exceptions the three functions can end with.\<close>

datatype error = KeyError | ValueError | TypeError

abbreviation USAGE :: string where "USAGE \<equiv> ''Water_Usage_Liters''"
abbreviation PRESSURE :: string where "PRESSURE \<equiv> ''Pressure''"
abbreviation DATE :: string where "DATE \<equiv> ''Date''"
abbreviation ANOMALY :: string where "ANOMALY \<equiv> ''anomaly''"
abbreviation ANOMALY_SCORE :: string where "ANOMALY_SCORE \<equiv> ''anomaly_score''"
abbreviation RISK_SCORE :: string where "RISK_SCORE \<equiv> ''risk_score''"
abbreviation RISK_LEVEL :: string where "RISK_LEVEL \<equiv> ''Risk_Level''"

subsection \<open>The tier of a risk score\<close>

text \<open>
  \<^verbatim>\<open>
  def risk_level(score):
      if score >= 70:   return "High"
      elif score >= 40: return "Medium"
      else:             return "Low"
  \<close>
\<close>

definition risk_level :: "real \<Rightarrow> string" where
  "risk_level score =
     (if score \<ge> 70 then ''High''
      else if score \<ge> 40 then ''Medium''
      else ''Low'')"

subsection \<open>Objects and references\<close>

text \<open>
  Python passes a table by reference, and both functions begin with \<^verbatim>\<open>df = df.copy()\<close>.
  The store is the list of the tables alive; a reference is a position in it. A copy is a
  new object at the end of the store, holding the same columns and rows (pandas copies
  the data: \<^verbatim>\<open>deep=True\<close> is the default).
\<close>

type_synonym ref = nat
type_synonym store = "dataframe list"

definition df_copy :: "store \<Rightarrow> ref \<Rightarrow> store \<times> ref" where
  "df_copy h p = (h @ [h ! p], length h)"

text \<open>
  \<^verbatim>\<open>df[c] = values\<close>: every row gets the value of its position under \<open>c\<close>; a new name
  is added after the existing columns. In the scorer the values are always computed from
  the rows of the same table, one per row.
\<close>

definition set_column :: "dataframe \<Rightarrow> string \<Rightarrow> cell list \<Rightarrow> dataframe" where
  "set_column df c vals =
     \<lparr>columns = (if c \<in> set (columns df) then columns df else columns df @ [c]),
      rows = map (\<lambda>(r, v). r(c \<mapsto> v)) (zip (rows df) vals)\<rparr>"

definition assign_column :: "store \<Rightarrow> ref \<Rightarrow> string \<Rightarrow> cell list \<Rightarrow> store" where
  "assign_column h p c vals = h[p := set_column (h ! p) c vals]"

subsection \<open>The scorer\<close>

text \<open>
  \<^verbatim>\<open>features = df[['Water_Usage_Liters', 'Pressure']]\<close> raises \<^verbatim>\<open>KeyError\<close> when one of
  the two names is not a column of the table; otherwise it is the two cells of every row.
\<close>

definition select_features :: "dataframe \<Rightarrow> error + (cell option \<times> cell option) list" where
  "select_features df =
     (if USAGE \<in> set (columns df) \<and> PRESSURE \<in> set (columns df)
      then Inr (map (\<lambda>r. (r USAGE, r PRESSURE)) (rows df))
      else Inl KeyError)"

text \<open>
  The outlier model is scikit-learn's \<^verbatim>\<open>IsolationForest\<close>, which is not part of the
  repository. It is a parameter of the scorer: \<open>forest c rs g X\<close> is the decision function
  of the model fitted on the feature matrix \<open>X\<close> with contamination \<open>c\<close> and
  \<^verbatim>\<open>random_state\<close> \<open>rs\<close>, one sample at a time. \<open>g\<close> is the state of the process-wide
  random generator at the time of the call, which the library draws from when it is
  given no random state (\<open>rs = None\<close>); it differs from run to run.

  Before fitting, the library validates its input: no sample at all ends in
  \<^verbatim>\<open>ValueError\<close>. So does, here, a cell that is not a number. (The library itself
  converts a text that reads as a number, and some of its versions accept missing
  values; the spec leaves such rows undefined, and the properties below that cover
  them hold either way.) An integer cell is converted to the number it denotes.
\<close>

type_synonym rng = nat

type_synonym forest =
  "real \<Rightarrow> nat option \<Rightarrow> rng \<Rightarrow> (real \<times> real) list \<Rightarrow> real \<times> real \<Rightarrow> real"

fun is_number :: "cell option \<Rightarrow> bool" where
  "is_number (Some (I64 i)) = True"
| "is_number (Some (Num x)) = True"
| "is_number _ = False"

fun to_float :: "cell option \<Rightarrow> real" where
  "to_float (Some (I64 i)) = of_int i"
| "to_float (Some (Num x)) = x"
| "to_float _ = 0"

definition check_array :: "(cell option \<times> cell option) list \<Rightarrow> error + (real \<times> real) list" where
  "check_array cs =
     (if cs = [] then Inl ValueError
      else if list_all (\<lambda>(u, p). is_number u \<and> is_number p) cs
      then Inr (map (\<lambda>(u, p). (to_float u, to_float p)) cs)
      else Inl ValueError)"

text \<open>
  \<^verbatim>\<open>model.decision_function(features)\<close>, and \<^verbatim>\<open>model.fit_predict(features)\<close>, which
  labels a sample \<open>-1\<close> when its decision value is negative and \<open>1\<close> otherwise.
\<close>

definition decision_function :: "forest \<Rightarrow> rng \<Rightarrow> (real \<times> real) list \<Rightarrow> real list" where
  "decision_function F g X = map (F (1 / 5) (Some 42) g X) X"

definition fit_predict :: "forest \<Rightarrow> rng \<Rightarrow> (real \<times> real) list \<Rightarrow> int list" where
  "fit_predict F g X = map (\<lambda>x. if F (1 / 5) (Some 42) g X x < 0 then - 1 else 1) X"

text \<open>
  Modelled from the spec: scikit-learn's \<^verbatim>\<open>MinMaxScaler(feature_range=(0, 100))\<close> is
  not under the repository's sources. The spec's step 4: a min-max linear rescaling
  computed from the values of the current batch, the batch minimum going to \<open>0\<close> and the
  batch maximum to \<open>100\<close>; when all values of the batch are identical, every value goes to
  \<open>0\<close> and nothing is divided by zero. The divisor is \<open>handle_zeros_in_scale\<close> of the
  batch's width (maximum minus minimum), which replaces a zero width by \<open>1\<close>.
\<close>

fun data_min :: "real list \<Rightarrow> real" where
  "data_min [] = 0"
| "data_min (x # xs) = fold min xs x"

fun data_max :: "real list \<Rightarrow> real" where
  "data_max [] = 0"
| "data_max (x # xs) = fold max xs x"

definition handle_zeros_in_scale :: "real \<Rightarrow> real" where
  "handle_zeros_in_scale width = (if width = 0 then 1 else width)"

definition minmax_fit_transform :: "real list \<Rightarrow> real list" where
  "minmax_fit_transform xs =
     (let lo = data_min xs;
          hi = data_max xs;
          scale = (100 - 0) / handle_zeros_in_scale (hi - lo)
      in map (\<lambda>x. (x - lo) * scale + 0) xs)"

text \<open>
  \<^verbatim>\<open>
  def detect_anomalies(df):
      df = df.copy()
      features = df[['Water_Usage_Liters', 'Pressure']]
      model = IsolationForest(contamination=0.2, random_state=42)
      df['anomaly'] = model.fit_predict(features)
      df['anomaly_score'] = model.decision_function(features)
      scaler = MinMaxScaler(feature_range=(0, 100))
      df['risk_score'] = scaler.fit_transform((-df['anomaly_score']).values.reshape(-1, 1))
      df['Risk_Level'] = df['risk_score'].apply(risk_level)
      return df
  \<close>
  The function takes the state of the process-wide random generator, the store and the
  caller's reference, and returns the store it leaves and either the exception or the
  reference it returns.
\<close>

definition detect_anomalies :: "forest \<Rightarrow> rng \<Rightarrow> store \<Rightarrow> ref \<Rightarrow> store \<times> (error + ref)" where
  "detect_anomalies F g h p =
     (let (h1, df) = df_copy h p in
      case select_features (h1 ! df) of
        Inl e \<Rightarrow> (h1, Inl e)
      | Inr cells \<Rightarrow>
          (case check_array cells of
             Inl e \<Rightarrow> (h1, Inl e)
           | Inr features \<Rightarrow>
               (let h2 = assign_column h1 df ANOMALY (map I64 (fit_predict F g features));
                    anomaly_score = decision_function F g features;
                    h3 = assign_column h2 df ANOMALY_SCORE (map Num anomaly_score);
                    risk_score = minmax_fit_transform (map uminus anomaly_score);
                    h4 = assign_column h3 df RISK_SCORE (map Num risk_score);
                    h5 = assign_column h4 df RISK_LEVEL (map (\<lambda>s. Str (risk_level s)) risk_score)
                in (h5, Inr df))))"

text \<open>
  The spec's contract \<open>score(table)\<close>: the scorer run on a store that holds the caller's
  table only, and the table behind the reference it returns.
\<close>

definition score :: "forest \<Rightarrow> rng \<Rightarrow> dataframe \<Rightarrow> error + dataframe" where
  "score F g t =
     (case detect_anomalies F g [t] 0 of
        (h', Inl e) \<Rightarrow> Inl e
      | (h', Inr q) \<Rightarrow> Inr (h' ! q))"

subsection \<open>Valid batches and concrete tables\<close>

text \<open>
  A valid batch is a table of readings: it has the usage and the pressure column, and
  both cells of every row are numbers. Its feature matrix is the pair of the two numbers
  of every row, in row order.
\<close>

definition valid_table :: "dataframe \<Rightarrow> bool" where
  "valid_table t =
     (USAGE \<in> set (columns t) \<and> PRESSURE \<in> set (columns t)
      \<and> list_all (\<lambda>r. is_number (r USAGE) \<and> is_number (r PRESSURE)) (rows t))"

definition feature_matrix :: "dataframe \<Rightarrow> (real \<times> real) list" where
  "feature_matrix t = map (\<lambda>r. (to_float (r USAGE), to_float (r PRESSURE))) (rows t)"

text \<open>
  Concrete inputs on which the functions are evaluated below. \<open>demo_forest\<close> stands in
  for a fitted model: a high usage and a low pressure give a low decision value, and
  without a random state the value moves with the process-wide generator.
  \<open>three_zones\<close> is the table of the spec's end-to-end scenario, \<open>flat_zones\<close> a batch
  whose rows all have the same usage and pressure.
\<close>

definition demo_forest :: forest where
  "demo_forest c rs g X x =
     snd x - fst x / 100 + (case rs of None \<Rightarrow> of_nat g | Some seed \<Rightarrow> 0)"

definition reading :: "string \<Rightarrow> string \<Rightarrow> int \<Rightarrow> real \<Rightarrow> row" where
  "reading zone date usage pressure =
     [''Zone_ID'' \<mapsto> Str zone, DATE \<mapsto> Str date, USAGE \<mapsto> I64 usage, PRESSURE \<mapsto> Num pressure]"

definition three_zones :: dataframe where
  "three_zones =
     \<lparr>columns = [''Zone_ID'', DATE, USAGE, PRESSURE],
      rows = [reading ''A'' ''2024-01-01'' 100 5,
              reading ''B'' ''2024-01-01'' 105 (51 / 10),
              reading ''C'' ''2024-01-01'' 900 (1 / 2)]\<rparr>"

definition flat_zones :: dataframe where
  "flat_zones =
     \<lparr>columns = [''Zone_ID'', DATE, USAGE, PRESSURE],
      rows = [reading ''A'' ''2024-01-01'' 100 5,
              reading ''B'' ''2024-01-02'' 100 5]\<rparr>"

text \<open>
  \<open>empty_frame\<close> is \<^verbatim>\<open>pd.DataFrame()\<close>, a table with no column and no row; \<open>header_only\<close>
  has the columns of the input file and no row; \<open>three_zones_relabelled\<close> has the feature
  matrix of \<open>three_zones\<close> under other zone names and dates.
\<close>

definition empty_frame :: dataframe where
  "empty_frame = \<lparr>columns = [], rows = []\<rparr>"

definition header_only :: dataframe where
  "header_only = \<lparr>columns = [''Zone_ID'', DATE, USAGE, PRESSURE], rows = []\<rparr>"

definition three_zones_relabelled :: dataframe where
  "three_zones_relabelled =
     \<lparr>columns = [''Zone_ID'', DATE, USAGE, PRESSURE],
      rows = [reading ''X'' ''2025-06-01'' 100 5,
              reading ''Y'' ''2025-06-02'' 105 (51 / 10),
              reading ''Z'' ''2025-06-03'' 900 (1 / 2)]\<rparr>"

subsection \<open>The injector\<close>

text \<open>
  The injector draws from Python's global random generator and reads the clock. Both are
  inputs here: which row \<^verbatim>\<open>df.sample(1)\<close> picks, the number behind \<^verbatim>\<open>random.randint\<close>,
  the number in \<open>[0, 1)\<close> behind \<^verbatim>\<open>random.uniform\<close>, and the time \<^verbatim>\<open>datetime.now()\<close>
  returns.
\<close>

record datetime =
  year :: nat
  month :: nat
  day :: nat
  hour :: nat
  minute :: nat
  second :: nat

record draws =
  sample_draw :: nat
  randbelow_draw :: nat
  random_draw :: real
  clock :: datetime

text \<open>
  \<^verbatim>\<open>random.randint(a, b)\<close> is \<open>a\<close> plus a number below \<open>b - a + 1\<close>;
  \<^verbatim>\<open>random.uniform(a, b)\<close> is \<^verbatim>\<open>a + (b - a) * random()\<close>; \<^verbatim>\<open>df.sample(1).index[0]\<close> is the
  label of one of the \<open>n\<close> rows.
\<close>

definition randint :: "draws \<Rightarrow> int \<Rightarrow> int \<Rightarrow> int" where
  "randint d a b = a + int (randbelow_draw d mod nat (b - a + 1))"

definition uniform :: "draws \<Rightarrow> real \<Rightarrow> real \<Rightarrow> real" where
  "uniform d a b = a + (b - a) * random_draw d"

definition sample_index :: "draws \<Rightarrow> nat \<Rightarrow> nat" where
  "sample_index d n = sample_draw d mod n"

text \<open>
  \<^verbatim>\<open>strftime("%Y-%m-%d %H:%M:%S")\<close>: the year on four digits, the other fields on two
  (the years of \<^verbatim>\<open>datetime\<close> end at 9999).
\<close>

definition digit :: "nat \<Rightarrow> char" where
  "digit n = ''0123456789'' ! (n mod 10)"

definition pad2 :: "nat \<Rightarrow> string" where
  "pad2 n = [digit (n div 10), digit n]"

definition pad4 :: "nat \<Rightarrow> string" where
  "pad4 n = [digit (n div 1000), digit (n div 100), digit (n div 10), digit n]"

definition strftime :: "datetime \<Rightarrow> string" where
  "strftime t = pad4 (year t) @ ''-'' @ pad2 (month t) @ ''-'' @ pad2 (day t) @ '' ''
     @ pad2 (hour t) @ '':'' @ pad2 (minute t) @ '':'' @ pad2 (second t)"



text \<open>
  \<^verbatim>\<open>df.loc[idx, c]\<close> read: \<^verbatim>\<open>KeyError\<close> when the label or the column is unknown.
  \<^verbatim>\<open>df.loc[idx, c] = v\<close> written: the cell of that row; when \<open>c\<close> is not a column yet,
  pandas adds the column, with the missing-value marker in every other row.
  The injector writes at the position \<^verbatim>\<open>sample\<close> picked only, which is a row of the
  table.
\<close>

definition loc_get :: "dataframe \<Rightarrow> nat \<Rightarrow> string \<Rightarrow> error + cell" where
  "loc_get df idx c =
     (if idx < length (rows df) \<and> c \<in> set (columns df)
      then (case (rows df ! idx) c of Some v \<Rightarrow> Inr v | None \<Rightarrow> Inr NaN)
      else Inl KeyError)"

definition loc_set :: "dataframe \<Rightarrow> nat \<Rightarrow> string \<Rightarrow> cell \<Rightarrow> dataframe" where
  "loc_set df idx c v =
     (if c \<in> set (columns df)
      then \<lparr>columns = columns df, rows = (rows df)[idx := (rows df ! idx)(c \<mapsto> v)]\<rparr>
      else \<lparr>columns = columns df @ [c],
            rows = (map (\<lambda>r. r(c \<mapsto> NaN)) (rows df))[idx := (rows df ! idx)(c \<mapsto> v)]\<rparr>)"

text \<open>
  \<^verbatim>\<open>cell += k\<close> for an integer \<open>k\<close>, and \<^verbatim>\<open>cell += x\<close> for a floating-point \<open>x\<close>.
  On an integer cell the sum with an integer is 64-bit: it wraps around modulo \<open>2^64\<close>
  into the signed range. Every sum that involves a floating-point number is rounded to a
  machine number; \<open>fl\<close> is that rounding, a parameter. A text cell raises
  \<^verbatim>\<open>TypeError\<close>, the missing-value marker stays what it is. (Writing a floating-point
  number into an integer column makes pandas convert that column; in a table of
  readings the pressure column is floating-point already.)
\<close>

definition wrap64 :: "int \<Rightarrow> int" where
  "wrap64 n = (n + 2 ^ 63) mod 2 ^ 64 - 2 ^ 63"

fun cell_add_int :: "(real \<Rightarrow> real) \<Rightarrow> cell \<Rightarrow> int \<Rightarrow> error + cell" where
  "cell_add_int fl (I64 u) k = Inr (I64 (wrap64 (u + k)))"
| "cell_add_int fl (Num x) k = Inr (Num (fl (x + of_int k)))"
| "cell_add_int fl NaN k = Inr NaN"
| "cell_add_int fl (Str s) k = Inl TypeError"

fun cell_add_float :: "(real \<Rightarrow> real) \<Rightarrow> cell \<Rightarrow> real \<Rightarrow> error + cell" where
  "cell_add_float fl (I64 u) y = Inr (Num (fl (fl (of_int u) + y)))"
| "cell_add_float fl (Num x) y = Inr (Num (fl (x + y)))"
| "cell_add_float fl NaN y = Inr NaN"
| "cell_add_float fl (Str s) y = Inl TypeError"

text \<open>
  \<^verbatim>\<open>
  def generate_live_data(df):
      df = df.copy()
      idx = df.sample(1).index[0]
      df.loc[idx, "Water_Usage_Liters"] += random.randint(-50, 200)
      df.loc[idx, "Pressure"] += random.uniform(-0.3, 0.2)
      df.loc[idx, "Date"] = datetime.now().strftime("%Y-%m-%d %H:%M:%S")
      return df
  \<close>
  \<^verbatim>\<open>df.sample(1)\<close> raises \<^verbatim>\<open>ValueError\<close> on a table without rows.
\<close>

definition generate_live_data ::
  "(real \<Rightarrow> real) \<Rightarrow> draws \<Rightarrow> store \<Rightarrow> ref \<Rightarrow> store \<times> (error + ref)" where
  "generate_live_data fl d h p =
     (let (h1, df) = df_copy h p in
      if rows (h1 ! df) = [] then (h1, Inl ValueError)
      else
        (let idx = sample_index d (length (rows (h1 ! df))) in
         case loc_get (h1 ! df) idx USAGE of
           Inl e \<Rightarrow> (h1, Inl e)
         | Inr u \<Rightarrow>
             (case cell_add_int fl u (randint d (- 50) 200) of
                Inl e \<Rightarrow> (h1, Inl e)
              | Inr u' \<Rightarrow>
                  (let h2 = h1[df := loc_set (h1 ! df) idx USAGE u'] in
                   case loc_get (h2 ! df) idx PRESSURE of
                     Inl e \<Rightarrow> (h2, Inl e)
                   | Inr pr \<Rightarrow>
                       (case cell_add_float fl pr (uniform d (- 3 / 10) (2 / 10)) of
                          Inl e \<Rightarrow> (h2, Inl e)
                        | Inr pr' \<Rightarrow>
                            (let h3 = h2[df := loc_set (h2 ! df) idx PRESSURE pr'];
                                 h4 = h3[df := loc_set (h3 ! df) idx DATE
                                        (Str (strftime (clock d)))]
                             in (h4, Inr df)))))))"

text \<open>
  The spec's contract \<open>inject(table)\<close>: the injector run on a store that holds the
  caller's table only, and the table behind the reference it returns.
\<close>

definition inject :: "(real \<Rightarrow> real) \<Rightarrow> draws \<Rightarrow> dataframe \<Rightarrow> error + dataframe" where
  "inject fl d t =
     (case generate_live_data fl d [t] 0 of
        (h', Inl e) \<Rightarrow> Inl e
      | (h', Inr q) \<Rightarrow> Inr (h' ! q))"

subsection \<open>The explanation\<close>

text \<open>
  \<^verbatim>\<open>
  def generate_explanation(row):
      if row['Risk_Level'] == "High":     return ("A sharp increase ... underground leak.")
      elif row['Risk_Level'] == "Medium": return ("Water usage shows ... monitored closely.")
      else:                               return ("Water usage and pressure ... is required.")
  \<close>
  Reading \<^verbatim>\<open>row['Risk_Level']\<close> raises \<^verbatim>\<open>KeyError\<close> when the row has no such entry.
\<close>

abbreviation HIGH_TEXT :: string where
  "HIGH_TEXT \<equiv> ''A sharp increase in water usage combined with reduced pressure was detected. This pattern strongly suggests a possible underground leak.''"

abbreviation MEDIUM_TEXT :: string where
  "MEDIUM_TEXT \<equiv> ''Water usage shows moderate deviation from historical patterns. This zone should be monitored closely.''"

abbreviation LOW_TEXT :: string where
  "LOW_TEXT \<equiv> ''Water usage and pressure levels are within expected limits. No immediate action is required.''"

definition generate_explanation :: "row \<Rightarrow> error + string" where
  "generate_explanation row =
     (case row RISK_LEVEL of
        None \<Rightarrow> Inl KeyError
      | Some level \<Rightarrow>
          if level = Str ''High'' then Inr HIGH_TEXT
          else if level = Str ''Medium'' then Inr MEDIUM_TEXT
          else Inr LOW_TEXT)"

text \<open>
  A clock reading and draws for the evaluations below: the second row is picked, the
  usage moves by \<open>-50 + 60 = 10\<close>, the pressure by \<open>-0.3 + 0.5 * 0.5 = -0.05\<close>.
\<close>

definition noon :: datetime where
  "noon = \<lparr>year = 2024, month = 3, day = 9, hour = 12, minute = 0, second = 7\<rparr>"

definition demo_draws :: draws where
  "demo_draws = \<lparr>sample_draw = 4, randbelow_draw = 60, random_draw = 1 / 2, clock = noon\<rparr>"

text \<open>
  \<open>no_rounding\<close> stands in for the rounding of a floating-point sum in the evaluations
  below. \<open>brim\<close> is a one-row table whose usage is the greatest 64-bit integer.
  \<open>two_tables\<close> is a store in which the caller's table comes second.
\<close>

definition no_rounding :: "real \<Rightarrow> real" where
  "no_rounding x = x"


definition two_tables :: store where
  "two_tables = [flat_zones, three_zones_relabelled]"



section \<open>Properties\<close>

subsection \<open>Tiers\<close>

text \<open>
  Claim C1. Every real score gets exactly one tier, and the tiers are closed below:
  High is exactly \<open>score \<ge> 70\<close>, Medium is exactly \<open>40 \<le> score < 70\<close>, Low is exactly
  \<open>score < 40\<close>; the three conditions exclude each other and cover the line. At the
  boundaries: 70 is High, 69.999 is Medium, 40 is Medium, 39.999 is Low.
\<close>

theorem risk_level_tiers:
  "(risk_level s = ''High'') = (70 \<le> s)
   \<and> (risk_level s = ''Medium'') = (40 \<le> s \<and> s < 70)
   \<and> (risk_level s = ''Low'') = (s < 40)
   \<and> risk_level s \<in> {''Low'', ''Medium'', ''High''}
   \<and> risk_level 70 = ''High''
   \<and> risk_level (69999 / 1000) = ''Medium''
   \<and> risk_level 40 = ''Medium''
   \<and> risk_level (39999 / 1000) = ''Low''"
  by (simp add: risk_level_def)

subsection \<open>The rescaling\<close>

lemma data_min_Min: "xs \<noteq> [] \<Longrightarrow> data_min xs = Min (set xs)"
  by (cases xs) (simp_all add: Min.set_eq_fold del: set_simps)

lemma data_max_Max: "xs \<noteq> [] \<Longrightarrow> data_max xs = Max (set xs)"
  by (cases xs) (simp_all add: Max.set_eq_fold del: set_simps)

lemma data_min_le: "x \<in> set xs \<Longrightarrow> data_min xs \<le> x"
  by (cases "xs = []") (simp_all add: data_min_Min)

lemma data_max_ge: "x \<in> set xs \<Longrightarrow> x \<le> data_max xs"
  by (cases "xs = []") (simp_all add: data_max_Max)

lemma data_min_in: "xs \<noteq> [] \<Longrightarrow> data_min xs \<in> set xs"
  by (simp add: data_min_Min)

lemma data_max_in: "xs \<noteq> [] \<Longrightarrow> data_max xs \<in> set xs"
  by (simp add: data_max_Max)

lemma length_minmax: "length (minmax_fit_transform xs) = length xs"
  by (simp add: minmax_fit_transform_def Let_def)

lemma nth_minmax:
  "i < length xs \<Longrightarrow> minmax_fit_transform xs ! i =
     (xs ! i - data_min xs) * (100 / handle_zeros_in_scale (data_max xs - data_min xs))"
  by (simp add: minmax_fit_transform_def Let_def)

lemma handle_zeros_nonzero: "handle_zeros_in_scale w \<noteq> 0"
  by (simp add: handle_zeros_in_scale_def)

lemma minmax_range:
  assumes "i < length xs"
  shows "0 \<le> minmax_fit_transform xs ! i \<and> minmax_fit_transform xs ! i \<le> 100"
proof -
  let ?lo = "data_min xs" and ?hi = "data_max xs"
  have x: "xs ! i \<in> set xs" using assms by simp
  have lo: "?lo \<le> xs ! i" and hi: "xs ! i \<le> ?hi"
    using x by (simp_all add: data_min_le data_max_ge)
  show ?thesis
  proof (cases "?hi - ?lo = 0")
    case True
    then have "xs ! i - ?lo = 0" using lo hi by linarith
    then show ?thesis using assms by (simp add: nth_minmax)
  next
    case False
    then have pos: "0 < ?hi - ?lo" using lo hi by linarith
    have "(xs ! i - ?lo) * (100 / (?hi - ?lo)) \<le> 100"
      using pos lo hi by (simp add: field_simps)
    moreover have "0 \<le> (xs ! i - ?lo) * (100 / (?hi - ?lo))"
      using pos lo by simp
    ultimately show ?thesis using assms False
      by (simp add: nth_minmax handle_zeros_in_scale_def)
  qed
qed

lemma minmax_at_min:
  assumes "i < length xs" "\<forall>j<length xs. xs ! i \<le> xs ! j"
  shows "minmax_fit_transform xs ! i = 0"
proof -
  have ne: "xs \<noteq> []" using assms by auto
  obtain j where "j < length xs" "xs ! j = data_min xs"
    using data_min_in [OF ne] by (auto simp: in_set_conv_nth)
  then have "xs ! i \<le> data_min xs" using assms by metis
  moreover have "data_min xs \<le> xs ! i" using assms by (simp add: data_min_le)
  ultimately show ?thesis using assms by (simp add: nth_minmax)
qed

lemma minmax_at_max:
  assumes "i < length xs" "\<forall>j<length xs. xs ! j \<le> xs ! i"
    and "k < length xs" "l < length xs" "xs ! k \<noteq> xs ! l"
  shows "minmax_fit_transform xs ! i = 100"
proof -
  have ne: "xs \<noteq> []" using assms by auto
  obtain j where "j < length xs" "xs ! j = data_max xs"
    using data_max_in [OF ne] by (auto simp: in_set_conv_nth)
  then have "data_max xs \<le> xs ! i" using assms by metis
  moreover have "xs ! i \<le> data_max xs" using assms by (simp add: data_max_ge)
  ultimately have top: "xs ! i = data_max xs" by simp
  have "data_min xs \<le> xs ! k" "data_min xs \<le> xs ! l"
    "xs ! k \<le> data_max xs" "xs ! l \<le> data_max xs"
    using assms by (simp_all add: data_min_le data_max_ge)
  then have lt: "data_min xs < data_max xs" using assms(5) by linarith
  then have "(data_max xs - data_min xs) * (100 / (data_max xs - data_min xs)) = 100"
    by (simp add: field_simps)
  then show ?thesis using assms(1) top lt
    by (simp only: nth_minmax handle_zeros_in_scale_def) simp
qed

lemma minmax_constant:
  assumes "i < length xs" "\<forall>j<length xs. xs ! j = c"
  shows "minmax_fit_transform xs ! i = 0"
  using assms minmax_at_min [of i xs] by simp

subsection \<open>What the scorer returns\<close>

lemma select_valid:
  "valid_table t \<Longrightarrow> select_features t = Inr (map (\<lambda>r. (r USAGE, r PRESSURE)) (rows t))"
  by (simp add: valid_table_def select_features_def)

lemma check_valid:
  "valid_table t \<Longrightarrow> rows t \<noteq> [] \<Longrightarrow>
   check_array (map (\<lambda>r. (r USAGE, r PRESSURE)) (rows t)) = Inr (feature_matrix t)"
  by (simp add: valid_table_def check_array_def feature_matrix_def list_all_iff)

lemma length_feature_matrix: "length (feature_matrix t) = length (rows t)"
  by (simp add: feature_matrix_def)

lemma set_column_length:
  "length vals = length (rows df) \<Longrightarrow> length (rows (set_column df c vals)) = length (rows df)"
  by (simp add: set_column_def)

lemma set_column_nth:
  "length vals = length (rows df) \<Longrightarrow> i < length (rows df) \<Longrightarrow>
   rows (set_column df c vals) ! i = (rows df ! i)(c \<mapsto> vals ! i)"
  by (simp add: set_column_def)

lemma detect_valid:
  assumes "p < length h" "valid_table (h ! p)" "rows (h ! p) \<noteq> []"
  shows "detect_anomalies F g h p =
    (let X = feature_matrix (h ! p);
         a = decision_function F g X;
         v = minmax_fit_transform (map uminus a)
     in (h @ [set_column (set_column (set_column (set_column (h ! p)
            ANOMALY (map I64 (fit_predict F g X)))
            ANOMALY_SCORE (map Num a))
            RISK_SCORE (map Num v))
            RISK_LEVEL (map (\<lambda>s. Str (risk_level s)) v)], Inr (length h)))"
  using assms
  by (simp add: detect_anomalies_def df_copy_def select_valid check_valid assign_column_def
      Let_def nth_append)

lemma detect_invalid_columns:
  assumes "\<not> (USAGE \<in> set (columns (h ! p)) \<and> PRESSURE \<in> set (columns (h ! p)))"
  shows "detect_anomalies F g h p = (h @ [h ! p], Inl KeyError)"
proof -
  have "select_features (h ! p) = Inl KeyError"
    using assms by (auto simp: select_features_def)
  then show ?thesis
    by (simp add: detect_anomalies_def df_copy_def nth_append)
qed

lemma detect_empty:
  assumes "USAGE \<in> set (columns (h ! p))" "PRESSURE \<in> set (columns (h ! p))"
    and "rows (h ! p) = []"
  shows "detect_anomalies F g h p = (h @ [h ! p], Inl ValueError)"
  using assms
  by (simp add: detect_anomalies_def df_copy_def select_features_def check_array_def nth_append)

lemma score_valid:
  assumes "valid_table t" "rows t \<noteq> []"
  shows "\<exists>out. score F g t = Inr out
    \<and> length (rows out) = length (rows t)
    \<and> (\<forall>i<length (rows t). rows out ! i = (rows t ! i)
          (ANOMALY \<mapsto> I64 (fit_predict F g (feature_matrix t) ! i),
           ANOMALY_SCORE \<mapsto> Num (decision_function F g (feature_matrix t) ! i),
           RISK_SCORE \<mapsto> Num (minmax_fit_transform
              (map uminus (decision_function F g (feature_matrix t))) ! i),
           RISK_LEVEL \<mapsto> Str (risk_level (minmax_fit_transform
              (map uminus (decision_function F g (feature_matrix t))) ! i))))"
proof -
  have n: "length (fit_predict F g (feature_matrix t)) = length (rows t)"
    "length (decision_function F g (feature_matrix t)) = length (rows t)"
    by (simp_all add: fit_predict_def decision_function_def length_feature_matrix)
  show ?thesis
    using assms n
    by (simp add: score_def detect_valid [of 0 "[t]", simplified] Let_def
        set_column_length set_column_nth length_minmax)
qed

lemma score_columns:
  assumes "valid_table t" "rows t \<noteq> []" "score F g t = Inr out"
  shows "take (length (columns t)) (columns out) = columns t
     \<and> ANOMALY \<in> set (columns out) \<and> ANOMALY_SCORE \<in> set (columns out)
     \<and> RISK_SCORE \<in> set (columns out) \<and> RISK_LEVEL \<in> set (columns out)"
  using assms
  by (auto simp: score_def detect_valid [of 0 "[t]", simplified] Let_def set_column_def)

lemma three_zones_valid: "valid_table three_zones \<and> rows three_zones \<noteq> []"
  by (simp add: valid_table_def three_zones_def reading_def)

lemma flat_zones_valid: "valid_table flat_zones \<and> rows flat_zones \<noteq> []"
  by (simp add: valid_table_def flat_zones_def reading_def)

subsection \<open>Order and length\<close>

text \<open>
  Claim C4. For every valid non-empty batch the scorer returns a table with as many rows
  as the input, the input's columns first, and at every position the input's row of that
  position with four cells written into it: \<open>anomaly\<close> (the model's label of the row),
  \<open>anomaly_score\<close> (its decision value), \<open>risk_score\<close> (the rescaled negated decision
  value) and \<open>Risk_Level\<close> (the tier of that risk score).
\<close>

theorem score_preserves_rows:
  assumes "valid_table t" and "rows t \<noteq> []"
  shows "\<exists>out. score F g t = Inr out
     \<and> length (rows out) = length (rows t)
     \<and> take (length (columns t)) (columns out) = columns t
     \<and> ANOMALY \<in> set (columns out) \<and> ANOMALY_SCORE \<in> set (columns out)
     \<and> RISK_SCORE \<in> set (columns out) \<and> RISK_LEVEL \<in> set (columns out)
     \<and> (\<forall>i<length (rows t). rows out ! i = (rows t ! i)
          (ANOMALY \<mapsto> I64 (fit_predict F g (feature_matrix t) ! i),
           ANOMALY_SCORE \<mapsto> Num (decision_function F g (feature_matrix t) ! i),
           RISK_SCORE \<mapsto> Num (minmax_fit_transform
              (map uminus (decision_function F g (feature_matrix t))) ! i),
           RISK_LEVEL \<mapsto> Str (risk_level (minmax_fit_transform
              (map uminus (decision_function F g (feature_matrix t))) ! i))))"
proof -
  obtain out where out: "score F g t = Inr out" "length (rows out) = length (rows t)"
    and r: "\<forall>i<length (rows t). rows out ! i = (rows t ! i)
          (ANOMALY \<mapsto> I64 (fit_predict F g (feature_matrix t) ! i),
           ANOMALY_SCORE \<mapsto> Num (decision_function F g (feature_matrix t) ! i),
           RISK_SCORE \<mapsto> Num (minmax_fit_transform
              (map uminus (decision_function F g (feature_matrix t))) ! i),
           RISK_LEVEL \<mapsto> Str (risk_level (minmax_fit_transform
              (map uminus (decision_function F g (feature_matrix t))) ! i)))"
    using score_valid [OF assms, where F = F and g = g] by blast
  show ?thesis
    using out r score_columns [OF assms out(1)] by blast
qed

theorem score_preserves_rows_witness:
  "valid_table three_zones \<and> rows three_zones \<noteq> []
   \<and> (\<exists>out. score demo_forest 0 three_zones = Inr out \<and> length (rows out) = 3
        \<and> (rows out ! 2) ''Zone_ID'' = Some (Str ''C'')
        \<and> (rows out ! 2) USAGE = Some (I64 900)
        \<and> (rows out ! 2) ANOMALY_SCORE = Some (Num (- 17 / 2)))"
proof -
  have v: "valid_table three_zones" and n: "rows three_zones \<noteq> []"
    using three_zones_valid by simp_all
  have a: "decision_function demo_forest 0 (feature_matrix three_zones) = [4, 81 / 20, - 17 / 2]"
    by (simp add: decision_function_def feature_matrix_def three_zones_def reading_def
        demo_forest_def)
  obtain out where o: "score demo_forest 0 three_zones = Inr out"
    "length (rows out) = length (rows three_zones)"
    and r: "\<forall>i<length (rows three_zones). rows out ! i = (rows three_zones ! i)
          (ANOMALY \<mapsto> I64 (fit_predict demo_forest 0 (feature_matrix three_zones) ! i),
           ANOMALY_SCORE \<mapsto> Num (decision_function demo_forest 0 (feature_matrix three_zones) ! i),
           RISK_SCORE \<mapsto> Num (minmax_fit_transform
              (map uminus (decision_function demo_forest 0 (feature_matrix three_zones))) ! i),
           RISK_LEVEL \<mapsto> Str (risk_level (minmax_fit_transform
              (map uminus (decision_function demo_forest 0 (feature_matrix three_zones))) ! i)))"
    using score_preserves_rows [OF v n, where F = demo_forest and g = 0] by blast
  have "2 < length (rows three_zones)" by (simp add: three_zones_def)
  with r have "rows out ! 2 = (rows three_zones ! 2)
          (ANOMALY \<mapsto> I64 (fit_predict demo_forest 0 (feature_matrix three_zones) ! 2),
           ANOMALY_SCORE \<mapsto> Num (decision_function demo_forest 0 (feature_matrix three_zones) ! 2),
           RISK_SCORE \<mapsto> Num (minmax_fit_transform
              (map uminus (decision_function demo_forest 0 (feature_matrix three_zones))) ! 2),
           RISK_LEVEL \<mapsto> Str (risk_level (minmax_fit_transform
              (map uminus (decision_function demo_forest 0 (feature_matrix three_zones))) ! 2)))"
    by blast
  then have "(rows out ! 2) ''Zone_ID'' = Some (Str ''C'')"
    "(rows out ! 2) USAGE = Some (I64 900)"
    "(rows out ! 2) ANOMALY_SCORE = Some (Num (- 17 / 2))"
    by (simp_all add: a) (simp_all add: three_zones_def reading_def)
  with o v n show ?thesis by (auto simp: three_zones_def)
qed

lemma score_cells:
  assumes "valid_table t" "rows t \<noteq> []"
  shows "\<exists>out. score F g t = Inr out
    \<and> (\<forall>i<length (rows t).
          (rows out ! i) ANOMALY_SCORE = Some (Num (decision_function F g (feature_matrix t) ! i))
        \<and> (rows out ! i) RISK_SCORE = Some (Num (minmax_fit_transform
              (map uminus (decision_function F g (feature_matrix t))) ! i)))"
proof -
  obtain out where out: "score F g t = Inr out"
    and r: "\<forall>i<length (rows t). rows out ! i = (rows t ! i)
          (ANOMALY \<mapsto> I64 (fit_predict F g (feature_matrix t) ! i),
           ANOMALY_SCORE \<mapsto> Num (decision_function F g (feature_matrix t) ! i),
           RISK_SCORE \<mapsto> Num (minmax_fit_transform
              (map uminus (decision_function F g (feature_matrix t))) ! i),
           RISK_LEVEL \<mapsto> Str (risk_level (minmax_fit_transform
              (map uminus (decision_function F g (feature_matrix t))) ! i)))"
    using score_valid [OF assms, where F = F and g = g] by blast
  have "\<forall>i<length (rows t).
          (rows out ! i) ANOMALY_SCORE = Some (Num (decision_function F g (feature_matrix t) ! i))
        \<and> (rows out ! i) RISK_SCORE = Some (Num (minmax_fit_transform
              (map uminus (decision_function F g (feature_matrix t))) ! i))"
    using r by simp
  with out show ?thesis by blast
qed

lemma length_decision: "length (decision_function F g (feature_matrix t)) = length (rows t)"
  by (simp add: decision_function_def length_feature_matrix)

lemma nth_decision:
  "i < length (rows t) \<Longrightarrow>
   decision_function F g (feature_matrix t) ! i = F (1 / 5) (Some 42) g (feature_matrix t) (feature_matrix t ! i)"
  by (simp add: decision_function_def length_feature_matrix)

lemma detect_failure_store:
  assumes "snd (detect_anomalies F g h p) = Inl e"
  shows "fst (detect_anomalies F g h p) = h @ [h ! p]"
  using assms
  by (auto simp: detect_anomalies_def df_copy_def Let_def split: sum.splits)

lemma three_zones_relabelled_valid: "valid_table three_zones_relabelled"
  by (simp add: valid_table_def three_zones_relabelled_def reading_def)

subsection \<open>Range of the risk score\<close>

text \<open>
  Claim C2. For every valid non-empty batch in which two rows have distinct raw anomaly
  measures (the \<open>anomaly_score\<close> cells, the decision values of the fitted model), every
  row's \<open>risk_score\<close> lies in the closed interval from 0 to 100; a row whose negated raw
  measure is the least of the batch has risk score exactly 0, and a row whose negated raw
  measure is the greatest has risk score exactly 100.
\<close>

theorem risk_score_range:
  assumes "valid_table t" and "rows t \<noteq> []"
    and "k < length (rows t)" and "l < length (rows t)"
    and "decision_function F g (feature_matrix t) ! k \<noteq> decision_function F g (feature_matrix t) ! l"
  shows "\<exists>out. score F g t = Inr out
     \<and> (\<forall>i<length (rows t). \<exists>a v.
           (rows out ! i) ANOMALY_SCORE = Some (Num a)
         \<and> a = decision_function F g (feature_matrix t) ! i
         \<and> (rows out ! i) RISK_SCORE = Some (Num v)
         \<and> 0 \<le> v \<and> v \<le> 100
         \<and> ((\<forall>j<length (rows t). - a \<le> - (decision_function F g (feature_matrix t) ! j))
              \<longrightarrow> v = 0)
         \<and> ((\<forall>j<length (rows t). - (decision_function F g (feature_matrix t) ! j) \<le> - a)
              \<longrightarrow> v = 100))"
proof -
  let ?a = "decision_function F g (feature_matrix t)"
  let ?xs = "map uminus ?a"
  have n: "length ?xs = length (rows t)" by (simp add: length_decision)
  obtain out where out: "score F g t = Inr out"
    and c: "\<forall>i<length (rows t).
          (rows out ! i) ANOMALY_SCORE = Some (Num (?a ! i))
        \<and> (rows out ! i) RISK_SCORE = Some (Num (minmax_fit_transform ?xs ! i))"
    using score_cells [OF assms(1,2), where F = F and g = g] by blast
  have d: "?xs ! k \<noteq> ?xs ! l" using assms(3,4,5) by (simp add: length_decision)
  have "\<exists>a v. (rows out ! i) ANOMALY_SCORE = Some (Num a)
         \<and> a = ?a ! i
         \<and> (rows out ! i) RISK_SCORE = Some (Num v)
         \<and> 0 \<le> v \<and> v \<le> 100
         \<and> ((\<forall>j<length (rows t). - a \<le> - (?a ! j)) \<longrightarrow> v = 0)
         \<and> ((\<forall>j<length (rows t). - (?a ! j) \<le> - a) \<longrightarrow> v = 100)"
    if i: "i < length (rows t)" for i
  proof -
    have i': "i < length ?xs" using i n by simp
    have lo: "minmax_fit_transform ?xs ! i = 0"
      if "\<forall>j<length (rows t). - (?a ! i) \<le> - (?a ! j)"
      using that i minmax_at_min [of i ?xs] by (simp add: length_decision)
    have hi: "minmax_fit_transform ?xs ! i = 100"
      if "\<forall>j<length (rows t). - (?a ! j) \<le> - (?a ! i)"
    proof -
      have "\<forall>j<length ?xs. ?xs ! j \<le> ?xs ! i"
        using that i by (simp add: length_decision)
      then show ?thesis
        using minmax_at_max [of i ?xs k l] i' d assms(3,4) n by simp
    qed
    show ?thesis
      using c i minmax_range [OF i'] lo hi by blast
  qed
  with out show ?thesis by blast
qed

theorem risk_score_range_witness:
  "valid_table three_zones \<and> rows three_zones \<noteq> []
   \<and> decision_function demo_forest 0 (feature_matrix three_zones) ! 0
        \<noteq> decision_function demo_forest 0 (feature_matrix three_zones) ! 2
   \<and> (\<exists>out. score demo_forest 0 three_zones = Inr out
        \<and> (rows out ! 1) RISK_SCORE = Some (Num 0)
        \<and> (rows out ! 2) RISK_SCORE = Some (Num 100))"
proof -
  have v: "valid_table three_zones" and n: "rows three_zones \<noteq> []"
    using three_zones_valid by simp_all
  have len: "length (rows three_zones) = 3" by (simp add: three_zones_def)
  have a: "decision_function demo_forest 0 (feature_matrix three_zones) = [4, 81 / 20, - 17 / 2]"
    by (simp add: decision_function_def feature_matrix_def three_zones_def reading_def
        demo_forest_def)
  have d: "decision_function demo_forest 0 (feature_matrix three_zones) ! 0
        \<noteq> decision_function demo_forest 0 (feature_matrix three_zones) ! 2"
    by (simp add: a)
  have k: "0 < length (rows three_zones)" "2 < length (rows three_zones)"
    by (simp_all add: len)
  obtain out where out: "score demo_forest 0 three_zones = Inr out"
    and c: "\<forall>i<length (rows three_zones). \<exists>a v.
           (rows out ! i) ANOMALY_SCORE = Some (Num a)
         \<and> a = decision_function demo_forest 0 (feature_matrix three_zones) ! i
         \<and> (rows out ! i) RISK_SCORE = Some (Num v)
         \<and> 0 \<le> v \<and> v \<le> 100
         \<and> ((\<forall>j<length (rows three_zones).
                - a \<le> - (decision_function demo_forest 0 (feature_matrix three_zones) ! j))
              \<longrightarrow> v = 0)
         \<and> ((\<forall>j<length (rows three_zones).
                - (decision_function demo_forest 0 (feature_matrix three_zones) ! j) \<le> - a)
              \<longrightarrow> v = 100)"
    using risk_score_range [OF v n k d] by blast
  have all3: "(\<forall>j<(3::nat). P j) = (P 0 \<and> P 1 \<and> P 2)" for P
    by (auto simp: less_Suc_eq numeral_3_eq_3 numeral_2_eq_2)
  have "(rows out ! 1) RISK_SCORE = Some (Num 0)"
    using c [rule_format, of 1] by (auto simp: len a all3)
  moreover have "(rows out ! 2) RISK_SCORE = Some (Num 100)"
    using c [rule_format, of 2] by (auto simp: len a all3)
  ultimately show ?thesis using v n d out by blast
qed

subsection \<open>The degenerate batch\<close>

text \<open>
  Claim C3. For every valid non-empty batch in which all rows yield the same raw anomaly
  measure, in particular when every row has the same usage and pressure, the scorer
  returns a table and every row's \<open>risk_score\<close> is 0; the divisor of the rescaling is 1
  there, so nothing is divided by zero.
\<close>

theorem degenerate_batch_zero:
  assumes "valid_table t" and "rows t \<noteq> []"
    and "(\<forall>j<length (rows t). decision_function F g (feature_matrix t) ! j = c)
       \<or> (\<forall>j<length (rows t). feature_matrix t ! j = x)"
  shows "\<exists>out. score F g t = Inr out
     \<and> (\<forall>i<length (rows t). (rows out ! i) RISK_SCORE = Some (Num 0))
     \<and> handle_zeros_in_scale
          (data_max (map uminus (decision_function F g (feature_matrix t)))
           - data_min (map uminus (decision_function F g (feature_matrix t)))) = 1"
proof -
  let ?a = "decision_function F g (feature_matrix t)"
  let ?xs = "map uminus ?a"
  have n: "length ?xs = length (rows t)" by (simp add: length_decision)
  obtain c' where same: "\<forall>j<length (rows t). ?a ! j = c'"
    using assms(3) by (metis nth_decision)
  then have const: "\<forall>j<length ?xs. ?xs ! j = - c'" using n by simp
  obtain out where out: "score F g t = Inr out"
    and c: "\<forall>i<length (rows t).
          (rows out ! i) ANOMALY_SCORE = Some (Num (?a ! i))
        \<and> (rows out ! i) RISK_SCORE = Some (Num (minmax_fit_transform ?xs ! i))"
    using score_cells [OF assms(1,2), where F = F and g = g] by blast
  have zero: "\<forall>i<length (rows t). (rows out ! i) RISK_SCORE = Some (Num 0)"
    using c const n minmax_constant [of _ ?xs "- c'"] by simp
  have ne: "?xs \<noteq> []" using assms(2) n by auto
  have "data_min ?xs = - c'" "data_max ?xs = - c'"
    using data_min_in [OF ne] data_max_in [OF ne] const
    by (auto simp: in_set_conv_nth)
  then have "handle_zeros_in_scale (data_max ?xs - data_min ?xs) = 1"
    by (simp add: handle_zeros_in_scale_def)
  with out zero show ?thesis by blast
qed

theorem degenerate_batch_zero_witness:
  "valid_table flat_zones \<and> rows flat_zones \<noteq> []
   \<and> feature_matrix flat_zones ! 0 = (100, 5) \<and> feature_matrix flat_zones ! 1 = (100, 5)
   \<and> (\<exists>out. score demo_forest 0 flat_zones = Inr out
        \<and> (rows out ! 0) RISK_SCORE = Some (Num 0)
        \<and> (rows out ! 1) RISK_SCORE = Some (Num 0))"
proof -
  have v: "valid_table flat_zones" and n: "rows flat_zones \<noteq> []"
    using flat_zones_valid by simp_all
  have len: "length (rows flat_zones) = 2" by (simp add: flat_zones_def)
  have f: "feature_matrix flat_zones = [(100, 5), (100, 5)]"
    by (simp add: feature_matrix_def flat_zones_def reading_def)
  have same: "(\<forall>j<length (rows flat_zones).
                 decision_function demo_forest 0 (feature_matrix flat_zones) ! j = 0)
       \<or> (\<forall>j<length (rows flat_zones). feature_matrix flat_zones ! j = (100, 5))"
    by (auto simp: len f less_Suc_eq numeral_2_eq_2)
  obtain out where out: "score demo_forest 0 flat_zones = Inr out"
    and z: "\<forall>i<length (rows flat_zones). (rows out ! i) RISK_SCORE = Some (Num 0)"
    using degenerate_batch_zero [OF v n same] by blast
  have "(rows out ! 0) RISK_SCORE = Some (Num 0)" "(rows out ! 1) RISK_SCORE = Some (Num 0)"
    using z by (simp_all add: len)
  with v n f out show ?thesis by auto
qed

subsection \<open>Failures of the scorer\<close>

text \<open>
  Claim C6, as amended. The scorer fails with \<^verbatim>\<open>KeyError\<close> (the spec's missing-feature
  error) whenever the usage or the pressure column is absent from the table, and with
  \<^verbatim>\<open>ValueError\<close> (the spec's insufficient-data error) whenever both columns are present
  and the batch is empty. Every failure ends the call before any column is written: the
  store holds the untouched copy, and no reference is returned.
\<close>

theorem scorer_failures:
  "(\<not> (USAGE \<in> set (columns (h ! p)) \<and> PRESSURE \<in> set (columns (h ! p)))
      \<longrightarrow> detect_anomalies F g h p = (h @ [h ! p], Inl KeyError))
   \<and> (USAGE \<in> set (columns (h ! p)) \<and> PRESSURE \<in> set (columns (h ! p)) \<and> rows (h ! p) = []
      \<longrightarrow> detect_anomalies F g h p = (h @ [h ! p], Inl ValueError))
   \<and> (\<forall>e. snd (detect_anomalies F g h p) = Inl e
      \<longrightarrow> fst (detect_anomalies F g h p) = h @ [h ! p])"
  using detect_invalid_columns [where h = h and p = p and F = F and g = g]
    detect_empty [where h = h and p = p and F = F and g = g]
    detect_failure_store [where h = h and p = p and F = F and g = g]
  by blast

theorem scorer_failures_witness:
  "PRESSURE \<notin> set (columns empty_frame)
   \<and> detect_anomalies demo_forest 0 [empty_frame] 0 = ([empty_frame, empty_frame], Inl KeyError)
   \<and> USAGE \<in> set (columns header_only) \<and> PRESSURE \<in> set (columns header_only)
   \<and> rows header_only = []
   \<and> detect_anomalies demo_forest 0 [header_only] 0 = ([header_only, header_only], Inl ValueError)"
  using scorer_failures [where h = "[empty_frame]" and p = 0 and F = demo_forest and g = 0]
    scorer_failures [where h = "[header_only]" and p = 0 and F = demo_forest and g = 0]
  by (simp add: empty_frame_def header_only_def)

text \<open>
  The claim as stated asks for the insufficient-data error whenever the batch is empty.
  The column selection comes first: the empty table without columns fails with
  \<^verbatim>\<open>KeyError\<close>.
\<close>

theorem scorer_empty_without_columns:
  "rows empty_frame = []
   \<and> snd (detect_anomalies demo_forest 0 [empty_frame] 0) = Inl KeyError
   \<and> snd (detect_anomalies demo_forest 0 [empty_frame] 0) \<noteq> Inl ValueError"
  by (simp add: detect_invalid_columns empty_frame_def)

subsection \<open>Reproducibility\<close>

lemma detect_rows:
  assumes "p < length h" "valid_table (h ! p)" "rows (h ! p) \<noteq> []"
  shows "\<exists>s q. detect_anomalies F g h p = (s, Inr q)
    \<and> length (rows (s ! q)) = length (rows (h ! p))
    \<and> (\<forall>i<length (rows (h ! p)). rows (s ! q) ! i = (rows (h ! p) ! i)
          (ANOMALY \<mapsto> I64 (fit_predict F g (feature_matrix (h ! p)) ! i),
           ANOMALY_SCORE \<mapsto> Num (decision_function F g (feature_matrix (h ! p)) ! i),
           RISK_SCORE \<mapsto> Num (minmax_fit_transform
              (map uminus (decision_function F g (feature_matrix (h ! p)))) ! i),
           RISK_LEVEL \<mapsto> Str (risk_level (minmax_fit_transform
              (map uminus (decision_function F g (feature_matrix (h ! p)))) ! i))))"
proof -
  have n: "length (fit_predict F g (feature_matrix (h ! p))) = length (rows (h ! p))"
    "length (decision_function F g (feature_matrix (h ! p))) = length (rows (h ! p))"
    by (simp_all add: fit_predict_def decision_function_def length_feature_matrix)
  show ?thesis
    using n
    by (simp add: detect_valid [OF assms] Let_def set_column_length set_column_nth length_minmax)
qed

lemma seeded_decision:
  assumes "\<forall>c seed g g' X. F c (Some seed) g X = F c (Some seed) g' X"
  shows "decision_function F g X = decision_function F g' X"
    and "fit_predict F g X = fit_predict F g' X"
proof -
  have "F (1 / 5) (Some 42) g X = F (1 / 5) (Some 42) g' X" using assms by blast
  then show "decision_function F g X = decision_function F g' X"
    and "fit_predict F g X = fit_predict F g' X"
    by (simp_all add: decision_function_def fit_predict_def)
qed

lemma demo_forest_seeded:
  "\<forall>c seed g g' X. demo_forest c (Some seed) g X = demo_forest c (Some seed) g' X"
  by (simp add: demo_forest_def fun_eq_iff)

text \<open>
  Claim C8. The scorer is deterministic. The library's part is its contract: a model
  given an integer random state does not depend on the process-wide generator. Under
  it, any two runs of the scorer, whatever the state of that generator, whatever else is
  in the store and whatever the other cells of the tables, over batches with the same
  usage and pressure values in the same row order, return the same \<open>anomaly\<close>,
  \<open>anomaly_score\<close>, \<open>risk_score\<close> and \<open>Risk_Level\<close> columns; and the raw scores are those of
  the model fitted with contamination \<open>1/5\<close> and random state \<open>42\<close>, under any state
  \<open>g0\<close> of the generator.
\<close>

theorem scorer_reproducible:
  assumes "\<forall>c seed g g' X. F c (Some seed) g X = F c (Some seed) g' X"
    and "p1 < length h1" and "p2 < length h2"
    and "valid_table (h1 ! p1)" and "valid_table (h2 ! p2)" and "rows (h1 ! p1) \<noteq> []"
    and "feature_matrix (h1 ! p1) = feature_matrix (h2 ! p2)"
  shows "\<exists>s1 q1 s2 q2.
       detect_anomalies F g1 h1 p1 = (s1, Inr q1)
     \<and> detect_anomalies F g2 h2 p2 = (s2, Inr q2)
     \<and> map (\<lambda>r. r ANOMALY) (rows (s1 ! q1)) = map (\<lambda>r. r ANOMALY) (rows (s2 ! q2))
     \<and> map (\<lambda>r. r ANOMALY_SCORE) (rows (s1 ! q1)) = map (\<lambda>r. r ANOMALY_SCORE) (rows (s2 ! q2))
     \<and> map (\<lambda>r. r RISK_SCORE) (rows (s1 ! q1)) = map (\<lambda>r. r RISK_SCORE) (rows (s2 ! q2))
     \<and> map (\<lambda>r. r RISK_LEVEL) (rows (s1 ! q1)) = map (\<lambda>r. r RISK_LEVEL) (rows (s2 ! q2))
     \<and> map (\<lambda>r. r ANOMALY_SCORE) (rows (s1 ! q1))
         = map (\<lambda>x. Some (Num (F (1 / 5) (Some 42) g0 (feature_matrix (h1 ! p1)) x)))
             (feature_matrix (h1 ! p1))"
proof -
  let ?X = "feature_matrix (h1 ! p1)"
  have len: "length (rows (h1 ! p1)) = length (rows (h2 ! p2))"
    using assms(7) length_feature_matrix by metis
  then have ne2: "rows (h2 ! p2) \<noteq> []" using assms(6) by auto
  have X2: "feature_matrix (h2 ! p2) = ?X" using assms(7) by simp
  have d2: "decision_function F g2 ?X = decision_function F g1 ?X"
    and f2: "fit_predict F g2 ?X = fit_predict F g1 ?X"
    and d0: "decision_function F g0 ?X = decision_function F g1 ?X"
    using seeded_decision [OF assms(1)] by blast+
  obtain s1 q1 where o1: "detect_anomalies F g1 h1 p1 = (s1, Inr q1)"
    "length (rows (s1 ! q1)) = length (rows (h1 ! p1))"
    and r1: "\<forall>i<length (rows (h1 ! p1)). rows (s1 ! q1) ! i = (rows (h1 ! p1) ! i)
          (ANOMALY \<mapsto> I64 (fit_predict F g1 ?X ! i),
           ANOMALY_SCORE \<mapsto> Num (decision_function F g1 ?X ! i),
           RISK_SCORE \<mapsto> Num (minmax_fit_transform
              (map uminus (decision_function F g1 ?X)) ! i),
           RISK_LEVEL \<mapsto> Str (risk_level (minmax_fit_transform
              (map uminus (decision_function F g1 ?X)) ! i)))"
    using detect_rows [OF assms(2,4,6), where F = F and g = g1] by blast
  obtain s2 q2 where o2: "detect_anomalies F g2 h2 p2 = (s2, Inr q2)"
    "length (rows (s2 ! q2)) = length (rows (h2 ! p2))"
    and r2: "\<forall>i<length (rows (h2 ! p2)). rows (s2 ! q2) ! i = (rows (h2 ! p2) ! i)
          (ANOMALY \<mapsto> I64 (fit_predict F g1 ?X ! i),
           ANOMALY_SCORE \<mapsto> Num (decision_function F g1 ?X ! i),
           RISK_SCORE \<mapsto> Num (minmax_fit_transform
              (map uminus (decision_function F g1 ?X)) ! i),
           RISK_LEVEL \<mapsto> Str (risk_level (minmax_fit_transform
              (map uminus (decision_function F g1 ?X)) ! i)))"
    using detect_rows [OF assms(3,5) ne2, where F = F and g = g2]
    unfolding X2 d2 f2 by blast
  have eq: "map (\<lambda>r. r c) (rows (s1 ! q1)) = map (\<lambda>r. r c) (rows (s2 ! q2))"
    if "c \<in> {ANOMALY, ANOMALY_SCORE, RISK_SCORE, RISK_LEVEL}" for c
  proof (rule nth_equalityI)
    show "length (map (\<lambda>r. r c) (rows (s1 ! q1))) = length (map (\<lambda>r. r c) (rows (s2 ! q2)))"
      using o1 o2 len by simp
  next
    fix i assume "i < length (map (\<lambda>r. r c) (rows (s1 ! q1)))"
    then have i: "i < length (rows (h1 ! p1))" "i < length (rows (h2 ! p2))"
      "i < length (rows (s1 ! q1))" "i < length (rows (s2 ! q2))"
      using o1 o2 len by simp_all
    have "(rows (s1 ! q1) ! i) c = (rows (s2 ! q2) ! i) c"
      using that r1 i(1) r2 i(2) by auto
    then show "map (\<lambda>r. r c) (rows (s1 ! q1)) ! i = map (\<lambda>r. r c) (rows (s2 ! q2)) ! i"
      using i by simp
  qed
  have raw: "map (\<lambda>r. r ANOMALY_SCORE) (rows (s1 ! q1))
         = map (\<lambda>x. Some (Num (F (1 / 5) (Some 42) g0 ?X x))) ?X"
  proof (rule nth_equalityI)
    show "length (map (\<lambda>r. r ANOMALY_SCORE) (rows (s1 ! q1)))
        = length (map (\<lambda>x. Some (Num (F (1 / 5) (Some 42) g0 ?X x))) ?X)"
      using o1 by (simp add: length_feature_matrix)
  next
    fix i assume "i < length (map (\<lambda>r. r ANOMALY_SCORE) (rows (s1 ! q1)))"
    then have i: "i < length (rows (h1 ! p1))" "i < length (rows (s1 ! q1))"
      using o1 by simp_all
    have "(rows (s1 ! q1) ! i) ANOMALY_SCORE = Some (Num (decision_function F g0 ?X ! i))"
      using r1 i(1) d0 by simp
    then show "map (\<lambda>r. r ANOMALY_SCORE) (rows (s1 ! q1)) ! i
        = map (\<lambda>x. Some (Num (F (1 / 5) (Some 42) g0 ?X x))) ?X ! i"
      using i by (simp add: nth_decision length_feature_matrix)
  qed
  show ?thesis using o1(1) o2(1) eq raw by blast
qed

theorem scorer_reproducible_witness:
  "(\<forall>c seed g g' X. demo_forest c (Some seed) g X = demo_forest c (Some seed) g' X)
   \<and> demo_forest (1 / 5) None 0 [] (0, 0) \<noteq> demo_forest (1 / 5) None 7 [] (0, 0)
   \<and> (0::nat) < length [three_zones] \<and> (1::nat) < length two_tables
   \<and> valid_table ([three_zones] ! 0) \<and> valid_table (two_tables ! 1)
   \<and> rows ([three_zones] ! 0) \<noteq> []
   \<and> feature_matrix ([three_zones] ! 0) = feature_matrix (two_tables ! 1)
   \<and> rows ([three_zones] ! 0) \<noteq> rows (two_tables ! 1)
   \<and> (\<exists>s1 q1 s2 q2.
        detect_anomalies demo_forest 0 [three_zones] 0 = (s1, Inr q1)
      \<and> detect_anomalies demo_forest 7 two_tables 1 = (s2, Inr q2)
      \<and> map (\<lambda>r. r RISK_SCORE) (rows (s1 ! q1)) = map (\<lambda>r. r RISK_SCORE) (rows (s2 ! q2))
      \<and> map (\<lambda>r. r RISK_LEVEL) (rows (s1 ! q1)) = map (\<lambda>r. r RISK_LEVEL) (rows (s2 ! q2)))"
proof -
  have u: "demo_forest (1 / 5) None 0 [] (0, 0) \<noteq> demo_forest (1 / 5) None 7 [] (0, 0)"
    by (simp add: demo_forest_def)
  have l: "(0::nat) < length [three_zones]" "(1::nat) < length two_tables"
    by (simp_all add: two_tables_def)
  have v: "valid_table ([three_zones] ! 0)" "valid_table (two_tables ! 1)"
    and n: "rows ([three_zones] ! 0) \<noteq> []"
    using three_zones_valid three_zones_relabelled_valid by (simp_all add: two_tables_def)
  have f: "feature_matrix ([three_zones] ! 0) = feature_matrix (two_tables ! 1)"
    by (simp add: feature_matrix_def three_zones_def three_zones_relabelled_def reading_def
        two_tables_def)
  have d: "rows ([three_zones] ! 0) \<noteq> rows (two_tables ! 1)"
  proof
    assume "rows ([three_zones] ! 0) = rows (two_tables ! 1)"
    then have "(rows three_zones ! 0) ''Zone_ID'' = (rows three_zones_relabelled ! 0) ''Zone_ID''"
      by (simp add: two_tables_def)
    then show False
      by (simp add: three_zones_def three_zones_relabelled_def reading_def)
  qed
  show ?thesis
    using scorer_reproducible [OF demo_forest_seeded l v n f, where ?g1.0 = 0 and ?g2.0 = 7
        and ?g0.0 = 0]
      demo_forest_seeded u l v n f d
    by blast
qed

subsection \<open>The caller's table\<close>

text \<open>
  Claim C10. The scorer never writes to the caller's data: after the call, on success and
  on failure, every table that was in the store before the call is what it was, the
  caller's own included; the store has one more object, the copy, and the reference
  returned on success is that new object.
\<close>

theorem scorer_leaves_caller_data:
  assumes "p < length h"
  shows "fst (detect_anomalies F g h p) ! p = h ! p
     \<and> take (length h) (fst (detect_anomalies F g h p)) = h
     \<and> length (fst (detect_anomalies F g h p)) = Suc (length h)
     \<and> snd (detect_anomalies F g h p) \<in> {Inl KeyError, Inl ValueError, Inr (length h)}"
proof -
  have t: "take (length h) (fst (detect_anomalies F g h p)) = h"
    and l: "length (fst (detect_anomalies F g h p)) = Suc (length h)"
    and s: "snd (detect_anomalies F g h p) \<in> {Inl KeyError, Inl ValueError, Inr (length h)}"
    by (auto simp: detect_anomalies_def df_copy_def assign_column_def Let_def
        select_features_def check_array_def split: sum.splits)
  have "fst (detect_anomalies F g h p) ! p = take (length h) (fst (detect_anomalies F g h p)) ! p"
    using assms by simp
  with t l s show ?thesis by simp
qed

theorem scorer_leaves_caller_data_witness:
  "(0::nat) < length [three_zones]
   \<and> fst (detect_anomalies demo_forest 0 [three_zones] 0) ! 0 = three_zones
   \<and> snd (detect_anomalies demo_forest 0 [three_zones] 0) = Inr 1
   \<and> fst (detect_anomalies demo_forest 0 [three_zones] 0) ! 1 \<noteq> three_zones"
proof -
  have a: "fst (detect_anomalies demo_forest 0 [three_zones] 0) ! 0 = three_zones"
    using scorer_leaves_caller_data [where p = 0 and h = "[three_zones]" and F = demo_forest and g = 0] by simp
  have d: "detect_anomalies demo_forest 0 [three_zones] 0 =
    (let X = feature_matrix three_zones;
         a = decision_function demo_forest 0 X;
         v = minmax_fit_transform (map uminus a)
     in ([three_zones] @ [set_column (set_column (set_column (set_column three_zones
            ANOMALY (map I64 (fit_predict demo_forest 0 X)))
            ANOMALY_SCORE (map Num a))
            RISK_SCORE (map Num v))
            RISK_LEVEL (map (\<lambda>s. Str (risk_level s)) v)], Inr (length [three_zones])))"
    using detect_valid [where p = 0 and h = "[three_zones]" and F = demo_forest and g = 0] three_zones_valid by simp
  have b: "snd (detect_anomalies demo_forest 0 [three_zones] 0) = Inr 1"
    by (simp add: d Let_def)
  have "RISK_LEVEL \<in> set (columns (fst (detect_anomalies demo_forest 0 [three_zones] 0) ! 1))"
    by (simp add: d Let_def set_column_def)
  moreover have "RISK_LEVEL \<notin> set (columns three_zones)"
    by (simp add: three_zones_def)
  ultimately have c: "fst (detect_anomalies demo_forest 0 [three_zones] 0) ! 1 \<noteq> three_zones"
    by auto
  show ?thesis using a b c by simp
qed

subsection \<open>What the injector returns\<close>





lemma sample_index_less: "0 < n \<Longrightarrow> sample_index d n < n"
  by (simp add: sample_index_def)


lemma number_cell_add:
  assumes "is_number (Some c)"
  shows "\<exists>c'. cell_add_int fl c k = Inr c'" and "\<exists>c'. cell_add_float fl c y = Inr c'"
  using assms by (cases c; simp)+

lemma is_number_Some: "is_number c \<Longrightarrow> \<exists>v. c = Some v"
  by (cases c) simp_all


lemma valid_row_cells:
  assumes "valid_table t" "i < length (rows t)"
  shows "\<exists>cu cp. (rows t ! i) USAGE = Some cu \<and> (rows t ! i) PRESSURE = Some cp
     \<and> is_number (Some cu) \<and> is_number (Some cp)"
proof -
  have "is_number ((rows t ! i) USAGE)" "is_number ((rows t ! i) PRESSURE)"
    using assms by (simp_all add: valid_table_def list_all_length)
  then show ?thesis using is_number_Some by metis
qed

lemma generate_numeric:
  assumes "p < length h" "rows (h ! p) \<noteq> []"
    and "USAGE \<in> set (columns (h ! p))" "PRESSURE \<in> set (columns (h ! p))"
    and "i = sample_index d (length (rows (h ! p)))"
    and "(rows (h ! p) ! i) USAGE = Some cu"
    and "(rows (h ! p) ! i) PRESSURE = Some cp"
    and "cell_add_int fl cu (randint d (- 50) 200) = Inr cu'"
    and "cell_add_float fl cp (uniform d (- 3 / 10) (2 / 10)) = Inr cp'"
  shows "generate_live_data fl d h p =
     (h @ [loc_set
            \<lparr>columns = columns (h ! p),
             rows = (rows (h ! p))[i := (rows (h ! p) ! i)(USAGE \<mapsto> cu', PRESSURE \<mapsto> cp')]\<rparr>
            i DATE (Str (strftime (clock d)))], Inr (length h))"
proof -
  have i: "i < length (rows (h ! p))" using assms(2,5) by (simp add: sample_index_less)
  show ?thesis
    using assms(1-4,6-9) i assms(5) [symmetric]
    by (simp add: generate_live_data_def df_copy_def nth_append Let_def loc_get_def loc_set_def)
qed


lemma generate_empty:
  "rows (h ! p) = [] \<Longrightarrow> generate_live_data fl d h p = (h @ [h ! p], Inl ValueError)"
  by (simp add: generate_live_data_def df_copy_def nth_append)

lemma loc_get_error: "loc_get df i c = Inl e \<Longrightarrow> e = KeyError"
  by (auto simp: loc_get_def split: if_splits option.splits)

lemma cell_add_error:
  "cell_add_int fl v k = Inl e \<Longrightarrow> e = TypeError"
  "cell_add_float fl v y = Inl e \<Longrightarrow> e = TypeError"
  by (cases v; auto)+

lemma generate_ValueError:
  assumes "snd (generate_live_data fl d h p) = Inl ValueError"
  shows "rows (h ! p) = []"
proof (rule ccontr)
  assume ne: "rows (h ! p) \<noteq> []"
  have "snd (generate_live_data fl d h p) \<noteq> Inl ValueError"
    using ne
    by (auto simp: generate_live_data_def df_copy_def nth_append Let_def
        split: sum.splits dest: loc_get_error cell_add_error)
  with assms show False by simp
qed


lemma inject_succeeds:
  assumes "valid_table t" "rows t \<noteq> []"
  shows "\<exists>out. inject fl d t = Inr out"
proof -
  let ?i = "sample_index d (length (rows t))"
  have i: "?i < length (rows t)" using assms(2) by (simp add: sample_index_less)
  have c: "USAGE \<in> set (columns t)" "PRESSURE \<in> set (columns t)"
    using assms(1) by (simp_all add: valid_table_def)
  obtain cu cp where u: "(rows t ! ?i) USAGE = Some cu" and pr: "(rows t ! ?i) PRESSURE = Some cp"
    and nu: "is_number (Some cu)" and np: "is_number (Some cp)"
    using valid_row_cells [OF assms(1) i] by blast
  obtain cu' where cu': "cell_add_int fl cu (randint d (- 50) 200) = Inr cu'"
    using number_cell_add(1) [OF nu] by blast
  obtain cp' where cp': "cell_add_float fl cp (uniform d (- 3 / 10) (2 / 10)) = Inr cp'"
    using number_cell_add(2) [OF np] by blast
  show ?thesis
    using generate_numeric [where p = 0 and h = "[t]" and i = ?i and d = d and fl = fl
        and cu = cu and cp = cp and cu' = cu' and cp' = cp']
      assms(2) c u pr cu' cp'
    by (simp add: inject_def)
qed

lemma inject_ValueError_iff: "(inject fl d t = Inl ValueError) = (rows t = [])"
proof
  assume "inject fl d t = Inl ValueError"
  then have "snd (generate_live_data fl d [t] 0) = Inl ValueError"
    by (auto simp: inject_def split: prod.splits sum.splits)
  from generate_ValueError [OF this] show "rows t = []" by simp
next
  assume "rows t = []"
  then show "inject fl d t = Inl ValueError"
    using generate_empty [where h = "[t]" and p = 0 and d = d and fl = fl]
    by (simp add: inject_def)
qed






subsection \<open>What the injector changes\<close>




subsection \<open>Failure of the injector\<close>

text \<open>
  Claim C7. The injector fails with the error of sampling from nothing (\<^verbatim>\<open>ValueError\<close>
  from \<^verbatim>\<open>df.sample(1)\<close>, the spec's empty-input error) if and only if its input has no
  row; on every non-empty table of readings it returns a table.
\<close>

theorem inject_fails_iff_empty:
  "(inject fl d t = Inl ValueError) = (rows t = [])
   \<and> (valid_table t \<and> rows t \<noteq> [] \<longrightarrow> (\<exists>out. inject fl d t = Inr out))"
  using inject_ValueError_iff [where fl = fl and d = d and t = t]
    inject_succeeds [where t = t and d = d and fl = fl] by blast

theorem inject_fails_iff_empty_witness:
  "rows header_only = [] \<and> inject no_rounding demo_draws header_only = Inl ValueError
   \<and> valid_table three_zones \<and> rows three_zones \<noteq> []
   \<and> inject no_rounding demo_draws three_zones \<noteq> Inl ValueError
   \<and> (\<exists>out. inject no_rounding demo_draws three_zones = Inr out)"
proof -
  have e: "rows header_only = []" by (simp add: header_only_def)
  have v: "valid_table three_zones" and n: "rows three_zones \<noteq> []"
    using three_zones_valid by simp_all
  show ?thesis
    using inject_fails_iff_empty [where fl = no_rounding and d = demo_draws and t = header_only]
      inject_fails_iff_empty [where fl = no_rounding and d = demo_draws and t = three_zones]
      e v n
    by blast
qed

subsection \<open>The explanation\<close>

text \<open>
  Claim C9, as amended. The explanation depends on the row's \<open>Risk_Level\<close> entry only. It
  is one fixed text for High, one for Medium and one for Low, none of which contains a
  number of the row; every other value of the entry gets the text of Low; the function
  fails only when the row has no \<open>Risk_Level\<close> entry at all.
\<close>

theorem explanation_by_level:
  "(row RISK_LEVEL = row' RISK_LEVEL \<longrightarrow> generate_explanation row = generate_explanation row')
   \<and> (row RISK_LEVEL = Some (Str ''High'') \<longrightarrow> generate_explanation row = Inr HIGH_TEXT)
   \<and> (row RISK_LEVEL = Some (Str ''Medium'') \<longrightarrow> generate_explanation row = Inr MEDIUM_TEXT)
   \<and> (row RISK_LEVEL = Some (Str ''Low'') \<longrightarrow> generate_explanation row = Inr LOW_TEXT)
   \<and> (\<forall>v. row RISK_LEVEL = Some v \<and> v \<noteq> Str ''High'' \<and> v \<noteq> Str ''Medium''
        \<longrightarrow> generate_explanation row = Inr LOW_TEXT)
   \<and> ((\<exists>e. generate_explanation row = Inl e) = (row RISK_LEVEL = None))"
  by (auto simp: generate_explanation_def split: option.splits)

theorem explanation_by_level_witness:
  "generate_explanation [RISK_LEVEL \<mapsto> Str ''High'', RISK_SCORE \<mapsto> Num 100] = Inr HIGH_TEXT
   \<and> generate_explanation [RISK_LEVEL \<mapsto> Str ''Medium'', RISK_SCORE \<mapsto> Num 50] = Inr MEDIUM_TEXT
   \<and> generate_explanation [RISK_LEVEL \<mapsto> Str ''Low'', RISK_SCORE \<mapsto> Num 0] = Inr LOW_TEXT
   \<and> generate_explanation [RISK_LEVEL \<mapsto> Str ''Low'', RISK_SCORE \<mapsto> Num 0]
       = generate_explanation [RISK_LEVEL \<mapsto> Str ''Low'', RISK_SCORE \<mapsto> Num 39]
   \<and> generate_explanation [RISK_LEVEL \<mapsto> NaN] = Inr LOW_TEXT"
proof -
  let ?h = "[RISK_LEVEL \<mapsto> Str ''High'', RISK_SCORE \<mapsto> Num 100]"
  let ?m = "[RISK_LEVEL \<mapsto> Str ''Medium'', RISK_SCORE \<mapsto> Num 50]"
  let ?l = "[RISK_LEVEL \<mapsto> Str ''Low'', RISK_SCORE \<mapsto> Num 0]"
  let ?l' = "[RISK_LEVEL \<mapsto> Str ''Low'', RISK_SCORE \<mapsto> Num 39]"
  let ?n = "[RISK_LEVEL \<mapsto> NaN]"
  have h: "generate_explanation ?h = Inr HIGH_TEXT"
    using explanation_by_level [of ?h ?h] by simp
  have m: "generate_explanation ?m = Inr MEDIUM_TEXT"
    using explanation_by_level [of ?m ?m] by simp
  have l: "generate_explanation ?l = Inr LOW_TEXT"
    using explanation_by_level [of ?l ?l] by simp
  have l': "generate_explanation ?l = generate_explanation ?l'"
    using explanation_by_level [of ?l ?l'] by simp
  have n: "generate_explanation ?n = Inr LOW_TEXT"
    using explanation_by_level [of ?n ?n] by simp
  show ?thesis using h m l l' n by simp
qed

text \<open>
  The claim as stated has the function fail on a level that is none of the three tiers.
  The last branch is an \<^verbatim>\<open>else\<close>: an unknown level gets the text of Low.
\<close>

theorem explanation_unknown_level:
  "generate_explanation [RISK_LEVEL \<mapsto> Str ''Critical''] = Inr LOW_TEXT
   \<and> Str ''Critical'' \<noteq> Str ''High'' \<and> Str ''Critical'' \<noteq> Str ''Medium''
   \<and> Str ''Critical'' \<noteq> Str ''Low''"
  by (simp add: generate_explanation_def)

end
